theory Spec2Isabelle
  imports Main "HOL-Library.Word" "HOL-Library.Sublist"
begin

section \<open>Strings of the host language\<close>

text \<open>
  A JavaScript string is a sequence of UTF-16 code units. Literals of the source are
  ASCII and are written through \<open>ascii\<close>.
\<close>

type_synonym js_string = "16 word list"

definition ascii :: "string \<Rightarrow> js_string" where
  "ascii cs = map of_char cs"

text \<open>
  \<^verbatim>\<open>String.prototype.trim\<close> strips, from both ends, the code units that ECMAScript
  calls WhiteSpace (TAB, VT, FF, ZWNBSP and the space separators) or LineTerminator
  (LF, CR, LS, PS). All of them lie in the basic plane, so the test is on one code unit.
\<close>

definition isWhiteSpace :: "16 word \<Rightarrow> bool" where
  "isWhiteSpace c =
     (c = 0x0009 \<or> c = 0x000A \<or> c = 0x000B \<or> c = 0x000C \<or> c = 0x000D \<or>
      c = 0x0020 \<or> c = 0x00A0 \<or> c = 0x1680 \<or> (0x2000 \<le> c \<and> c \<le> 0x200A) \<or>
      c = 0x2028 \<or> c = 0x2029 \<or> c = 0x202F \<or> c = 0x205F \<or> c = 0x3000 \<or>
      c = 0xFEFF)"

definition trim :: "js_string \<Rightarrow> js_string" where
  "trim s = rev (dropWhile isWhiteSpace (rev (dropWhile isWhiteSpace s)))"

section \<open>Data model\<close>

text \<open>
  \<^verbatim>\<open>Article\<close> is declared in \<^verbatim>\<open>./types\<close>, which is not among the sources. App.tsx
  builds one as \<^verbatim>\<open>{...articleData, id: ..., createdAt: ...}\<close>: the fields the
  generation service returned, with \<^verbatim>\<open>id\<close> and \<^verbatim>\<open>createdAt\<close> set last. The
  service's fields are the type parameter \<open>'d\<close>.
\<close>

record 'd Article =
  articleData :: 'd
  id' :: js_string
  createdAt :: js_string

text \<open>The tags of \<^verbatim>\<open>View\<close> are the cases of the switch in \<^verbatim>\<open>renderContent\<close>.\<close>

datatype View =
  View_main | View_history | View_about | View_contact | View_disclaimer |
  View_privacy | View_terms

text \<open>
  A thrown value: an instance of \<^verbatim>\<open>Error\<close> with its message, or anything else
  (\<^verbatim>\<open>e instanceof Error\<close> is the only test the source makes).
\<close>

datatype thrown = Error js_string | NotAnError

text \<open>
  What the component does to the outside, in order: a call of
  \<^verbatim>\<open>generateBlogArticle(topic, wordCount, language, tone)\<close>, a
  \<^verbatim>\<open>console.error(text, error)\<close> and a \<^verbatim>\<open>window.scrollTo\<close> to the top.
\<close>

datatype effect =
  GenerateRequest js_string js_string js_string js_string
| ConsoleError js_string thrown
| ScrollToTop

text \<open>
  The nine \<^verbatim>\<open>useState\<close> cells of \<^verbatim>\<open>App\<close>, and the trace of effects. The option
  types \<^verbatim>\<open>WordCount\<close>, \<^verbatim>\<open>Language\<close> and \<^verbatim>\<open>Tone\<close> are unions of string
  literals (the select fields store \<^verbatim>\<open>e.target.value\<close>), so they are strings here.
\<close>

record 'd App =
  topic :: js_string
  wordCount :: js_string
  language :: js_string
  tone :: js_string
  generatedArticle :: "'d Article option"
  isLoading :: bool
  error :: "js_string option"
  history :: "'d Article list"
  view :: View
  trace :: "effect list"

definition initial :: "'d App" where
  "initial =
     \<lparr>topic = [], wordCount = ascii ''500'', language = ascii ''English'',
      tone = ascii ''Professional'', generatedArticle = None, isLoading = False,
      error = None, history = [], view = View_main, trace = []\<rparr>"

section \<open>Startup load of the history\<close>

text \<open>
  The body of the \<^verbatim>\<open>try\<close> of the first effect. \<open>getItem\<close> is what
  \<^verbatim>\<open>localStorage.getItem('blogArticleHistory')\<close> does: it throws, or returns
  \<^verbatim>\<open>null\<close> (\<open>None\<close>) or the stored text. \<open>parsed\<close> is what \<^verbatim>\<open>JSON.parse\<close> does
  on that text: it throws, or returns the value, which \<^verbatim>\<open>setHistory\<close> receives as it
  is. \<^verbatim>\<open>JSON.parse\<close> is read only when the text is truthy, that is not empty. The
  result is \<open>Inl\<close> when the body throws.
\<close>

definition loadHistory_try ::
  "thrown + js_string option \<Rightarrow> thrown + 'd Article list \<Rightarrow> 'd App \<Rightarrow> thrown + 'd App" where
  "loadHistory_try getItem parsed s =
     (case getItem of
        Inl e \<Rightarrow> Inl e
      | Inr None \<Rightarrow> Inr s
      | Inr (Some storedHistory) \<Rightarrow>
          if storedHistory = [] then Inr s
          else (case parsed of
                  Inl e \<Rightarrow> Inl e
                | Inr v \<Rightarrow> Inr (s\<lparr>history := v\<rparr>)))"

text \<open>The effect with its \<^verbatim>\<open>catch\<close>: log, then \<^verbatim>\<open>setHistory([])\<close>.\<close>

definition loadHistory ::
  "thrown + js_string option \<Rightarrow> thrown + 'd Article list \<Rightarrow> 'd App \<Rightarrow> 'd App" where
  "loadHistory getItem parsed s =
     (case loadHistory_try getItem parsed s of
        Inr s' \<Rightarrow> s'
      | Inl e \<Rightarrow>
          s\<lparr>trace := trace s @ [ConsoleError (ascii ''Failed to load history from localStorage:'') e],
            history := []\<rparr>)"

section \<open>Handlers\<close>

text \<open>
  \<^verbatim>\<open>handleGenerateArticle\<close>, run to its end with no other event in between.
  \<open>response\<close> is how the awaited call of the service settles (\<open>Inl\<close>: it throws),
  \<open>dateNow\<close> is \<^verbatim>\<open>Date.now().toString()\<close> and \<open>dateISO\<close> is
  \<^verbatim>\<open>new Date().toISOString()\<close>. \<^verbatim>\<open>prevHistory.slice(0, 49)\<close> is \<open>take 49\<close>.
\<close>

definition handleGenerateArticle ::
  "thrown + 'd \<Rightarrow> js_string \<Rightarrow> js_string \<Rightarrow> 'd App \<Rightarrow> 'd App" where
  "handleGenerateArticle response dateNow dateISO s =
     (if trim (topic s) = [] then
        s\<lparr>error := Some (ascii ''Please enter a blog topic or keyword.'')\<rparr>
      else
        let s1 = s\<lparr>isLoading := True, error := None, generatedArticle := None\<rparr>;
            s2 = s1\<lparr>trace := trace s1 @
                   [GenerateRequest (topic s) (wordCount s) (language s) (tone s)]\<rparr>;
            s3 = (case response of
                    Inr d \<Rightarrow>
                      let newArticle = \<lparr>articleData = d, id' = dateNow, createdAt = dateISO\<rparr>
                      in s2\<lparr>generatedArticle := Some newArticle,
                            history := newArticle # take 49 (history s2)\<rparr>
                  | Inl e \<Rightarrow>
                      let errorMessage =
                            (case e of
                               Error m \<Rightarrow> m
                             | NotAnError \<Rightarrow> ascii ''An unexpected error occurred.'')
                      in s2\<lparr>error := Some (ascii ''Error: '' @ errorMessage)\<rparr>)
        in s3\<lparr>isLoading := False\<rparr>)"

definition handleSelectFromHistory :: "'d Article \<Rightarrow> 'd App \<Rightarrow> 'd App" where
  "handleSelectFromHistory article s =
     s\<lparr>generatedArticle := Some article, view := View_main,
       trace := trace s @ [ScrollToTop]\<rparr>"

definition handleDeleteFromHistory :: "js_string \<Rightarrow> 'd App \<Rightarrow> 'd App" where
  "handleDeleteFromHistory i s = s\<lparr>history := filter (\<lambda>item. id' item \<noteq> i) (history s)\<rparr>"

text \<open>\<open>confirmed\<close> is the answer of \<^verbatim>\<open>window.confirm\<close>.\<close>

definition handleClearHistory :: "bool \<Rightarrow> 'd App \<Rightarrow> 'd App" where
  "handleClearHistory confirmed s =
     (if confirmed then
        let s1 = s\<lparr>history := []\<rparr>
        in if view s = View_history then s1 else s1\<lparr>generatedArticle := None\<rparr>
      else s)"

section \<open>Sample inputs\<close>

text \<open>
  Concrete inputs for the instances below: an article whose service fields are empty,
  a second article that differs from it only in \<^verbatim>\<open>createdAt\<close>, an older article
  with an id of its own, the JSON text of an array of \<open>n\<close> copies of the first
  (\<open>n\<close> at least one), a state ready to generate with an article on display, and
  that state with a history of fifty entries, the older article last.
\<close>

definition sample_article :: "unit Article" where
  "sample_article =
     \<lparr>articleData = (), id' = ascii ''1700000000000'',
      createdAt = ascii ''2023-11-14T22:13:20.000Z''\<rparr>"

definition sample_twin :: "unit Article" where
  "sample_twin = sample_article\<lparr>createdAt := ascii ''2023-11-14T22:13:20.999Z''\<rparr>"

definition sample_older :: "unit Article" where
  "sample_older =
     \<lparr>articleData = (), id' = ascii ''1600000000000'',
      createdAt = ascii ''2020-09-13T12:26:40.000Z''\<rparr>"

definition sample_json :: string where
  \<open>sample_json = ''{"id":"1700000000000","createdAt":"2023-11-14T22:13:20.000Z"}''\<close>

definition stored_array :: "nat \<Rightarrow> js_string" where
  "stored_array n =
     ascii (''['' @ sample_json @ concat (replicate (n - 1) ('','' @ sample_json)) @ '']'')"

definition ready :: "unit App" where
  "ready = initial\<lparr>topic := ascii ''AI'', generatedArticle := Some sample_article\<rparr>"

definition full :: "unit App" where
  "full = ready\<lparr>history := replicate 49 sample_twin @ [sample_older]\<rparr>"

section \<open>Auxiliary facts\<close>

lemma dropWhile_all_iff: "(\<forall>x \<in> set (dropWhile P xs). P x) \<longleftrightarrow> (\<forall>x \<in> set xs. P x)"
  by (induction xs) auto

lemma trim_empty_iff: "trim s = [] \<longleftrightarrow> (\<forall>c \<in> set s. isWhiteSpace c)"
  unfolding trim_def by (simp add: dropWhile_all_iff)

lemma trim_AI: "trim (ascii ''AI'') \<noteq> []"
  by (simp add: trim_def ascii_def isWhiteSpace_def)

lemma stored_array_truthy: "stored_array n \<noteq> []"
  by (simp add: stored_array_def ascii_def)

lemma filter_unique_key:
  "distinct (map f xs) \<Longrightarrow> a \<in> set xs \<Longrightarrow> filter (\<lambda>x. f x \<noteq> f a) xs = remove1 a xs"
proof (induction xs)
  case Nil
  then show ?case by simp
next
  case (Cons x xs)
  show ?case
  proof (cases "x = a")
    case True
    with Cons.prems have "f a \<notin> f ` set xs" by simp
    then have "\<forall>y \<in> set xs. f y \<noteq> f a" by (metis imageI)
    then have "filter (\<lambda>x. f x \<noteq> f a) xs = xs" by (simp add: filter_id_conv)
    with True show ?thesis by simp
  next
    case False
    with Cons.prems have "a \<in> set xs" and "distinct (map f xs)" by auto
    moreover from Cons.prems \<open>a \<in> set xs\<close> have "f x \<noteq> f a"
      by (metis distinct.simps(2) imageI list.simps(9) set_map)
    ultimately have "filter (\<lambda>x. f x \<noteq> f a) (x # xs) = x # remove1 a xs"
      using Cons.IH by simp
    with False show ?thesis by simp
  qed
qed

lemma count_list_filter_key:
  "count_list (filter (\<lambda>y. f y \<noteq> k) xs) x = (if f x = k then 0 else count_list xs x)"
  by (induction xs) auto

section \<open>Generation\<close>

text \<open>
  C4. When every code unit of the topic is white space (the empty topic included),
  \<^verbatim>\<open>handleGenerateArticle\<close> only sets the error to the request for a topic: the
  service is not called (the trace of effects is as before) and every other cell of the
  state is as before, whatever the service would have answered.
\<close>

theorem blank_topic_blocked:
  assumes "\<forall>c \<in> set (topic s). isWhiteSpace c"
  shows "handleGenerateArticle response dateNow dateISO s =
           s\<lparr>error := Some (ascii ''Please enter a blog topic or keyword.'')\<rparr> \<and>
         trace (handleGenerateArticle response dateNow dateISO s) = trace s"
  using assms by (simp add: handleGenerateArticle_def trim_empty_iff)

text \<open>
  An instance of C4: the topic is a space, a tab and a no-break space, and the service
  would have answered.
\<close>

theorem blank_topic_blocked_witness:
  "trim [0x0020, 0x0009, 0x00A0] = [] \<and>
   handleGenerateArticle (Inr ()) (ascii ''1700000000000'') (ascii ''2023-11-14T22:13:20.000Z'')
       (initial\<lparr>topic := [0x0020, 0x0009, 0x00A0]\<rparr>) =
     initial\<lparr>topic := [0x0020, 0x0009, 0x00A0],
             error := Some (ascii ''Please enter a blog topic or keyword.'')\<rparr>"
proof -
  have blank: "\<forall>c \<in> set (topic ((initial :: unit App)\<lparr>topic := [0x0020, 0x0009, 0x00A0]\<rparr>)).
      isWhiteSpace c"
    by (simp add: isWhiteSpace_def)
  have "trim [0x0020, 0x0009, 0x00A0] = []"
    by (simp add: trim_def isWhiteSpace_def)
  with blank_topic_blocked [OF blank, of "Inr ()" "ascii ''1700000000000''"
      "ascii ''2023-11-14T22:13:20.000Z''"]
  show ?thesis by simp
qed

text \<open>
  C3. When the topic is not blank and the service answers, the history becomes the new
  article followed by the first 49 entries of the old history, in their order: its
  length is the old length plus one, capped at 50, and below the cap no entry is lost.
  The new article is the one on display and the error ends \<^verbatim>\<open>null\<close>.
\<close>

theorem generation_success:
  assumes "trim (topic s) \<noteq> []"
  shows "history (handleGenerateArticle (Inr d) dateNow dateISO s) =
           \<lparr>articleData = d, id' = dateNow, createdAt = dateISO\<rparr> # take 49 (history s) \<and>
         length (history (handleGenerateArticle (Inr d) dateNow dateISO s)) =
           min 50 (Suc (length (history s))) \<and>
         (length (history s) < 50 \<longrightarrow>
            history (handleGenerateArticle (Inr d) dateNow dateISO s) =
              \<lparr>articleData = d, id' = dateNow, createdAt = dateISO\<rparr> # history s) \<and>
         error (handleGenerateArticle (Inr d) dateNow dateISO s) = None \<and>
         generatedArticle (handleGenerateArticle (Inr d) dateNow dateISO s) =
           Some \<lparr>articleData = d, id' = dateNow, createdAt = dateISO\<rparr>"
proof -
  have h: "history (handleGenerateArticle (Inr d) dateNow dateISO s) =
      \<lparr>articleData = d, id' = dateNow, createdAt = dateISO\<rparr> # take 49 (history s)"
    using assms by (simp add: handleGenerateArticle_def Let_def)
  have "length (history (handleGenerateArticle (Inr d) dateNow dateISO s)) =
      min 50 (Suc (length (history s)))"
    unfolding h by simp
  moreover have "length (history s) < 50 \<longrightarrow>
      history (handleGenerateArticle (Inr d) dateNow dateISO s) =
        \<lparr>articleData = d, id' = dateNow, createdAt = dateISO\<rparr> # history s"
    unfolding h by simp
  moreover have "error (handleGenerateArticle (Inr d) dateNow dateISO s) = None"
    using assms by (simp add: handleGenerateArticle_def Let_def)
  moreover have "generatedArticle (handleGenerateArticle (Inr d) dateNow dateISO s) =
      Some \<lparr>articleData = d, id' = dateNow, createdAt = dateISO\<rparr>"
    using assms by (simp add: handleGenerateArticle_def Let_def)
  ultimately show ?thesis using h by simp
qed

text \<open>
  An instance of C3: an error is on display and the history holds one older article; the
  new article goes in front of it and the error is cleared.
\<close>

theorem generation_success_witness:
  "trim (topic (ready\<lparr>error := Some (ascii ''Error: offline''), history := [sample_older]\<rparr>)) \<noteq> [] \<and>
   history (handleGenerateArticle (Inr ()) (ascii ''1700000000000'')
       (ascii ''2023-11-14T22:13:20.000Z'')
       (ready\<lparr>error := Some (ascii ''Error: offline''), history := [sample_older]\<rparr>)) =
     [sample_article, sample_older] \<and>
   error (handleGenerateArticle (Inr ()) (ascii ''1700000000000'')
       (ascii ''2023-11-14T22:13:20.000Z'')
       (ready\<lparr>error := Some (ascii ''Error: offline''), history := [sample_older]\<rparr>)) = None"
proof -
  have go: "trim (topic (ready\<lparr>error := Some (ascii ''Error: offline''),
      history := [sample_older]\<rparr>)) \<noteq> []"
    by (simp add: ready_def trim_AI)
  show ?thesis
    using go generation_success [OF go, of "()" "ascii ''1700000000000''"
        "ascii ''2023-11-14T22:13:20.000Z''"]
    by (simp add: sample_article_def)
qed

text \<open>
  C2, as the claim states it, fails on its last part: a failed request does not leave
  the article on display as it was. \<^verbatim>\<open>setGeneratedArticle(null)\<close> runs before the
  call of the service, so the article that was displayed is gone when the call throws.
\<close>

theorem generation_failure_counterexample:
  "generatedArticle ready = Some sample_article \<and>
   generatedArticle (handleGenerateArticle (Inl (Error (ascii ''quota exceeded'')))
       (ascii ''1700000000000'') (ascii ''2023-11-14T22:13:20.000Z'') ready) \<noteq>
     generatedArticle ready"
  by (simp add: handleGenerateArticle_def Let_def ready_def trim_AI)

text \<open>
  C2, amended. When the topic is not blank and the call of the service throws, the error
  becomes \<^verbatim>\<open>Error: \<close> followed by the message of the thrown \<^verbatim>\<open>Error\<close> (or by
  \<^verbatim>\<open>An unexpected error occurred.\<close> when the thrown value is no \<^verbatim>\<open>Error\<close>), the
  loading flag ends false, and the article on display ends \<^verbatim>\<open>null\<close>. The history, the
  form fields and the view are as before; the one effect is the request.
\<close>

theorem generation_failure:
  assumes "trim (topic s) \<noteq> []"
  shows "handleGenerateArticle (Inl e) dateNow dateISO s =
           s\<lparr>generatedArticle := None, isLoading := False,
             error := Some (ascii ''Error: '' @
               (case e of Error m \<Rightarrow> m
                | NotAnError \<Rightarrow> ascii ''An unexpected error occurred.'')),
             trace := trace s @
               [GenerateRequest (topic s) (wordCount s) (language s) (tone s)]\<rparr>"
  using assms by (simp add: handleGenerateArticle_def Let_def)

text \<open>An instance of the amended C2: the service throws an \<^verbatim>\<open>Error\<close> for a used-up quota.\<close>

theorem generation_failure_witness:
  "trim (topic ready) \<noteq> [] \<and>
   error (handleGenerateArticle (Inl (Error (ascii ''quota exceeded'')))
       (ascii ''1700000000000'') (ascii ''2023-11-14T22:13:20.000Z'') ready) =
     Some (ascii ''Error: quota exceeded'') \<and>
   isLoading (handleGenerateArticle (Inl (Error (ascii ''quota exceeded'')))
       (ascii ''1700000000000'') (ascii ''2023-11-14T22:13:20.000Z'') ready) = False \<and>
   generatedArticle (handleGenerateArticle (Inl (Error (ascii ''quota exceeded'')))
       (ascii ''1700000000000'') (ascii ''2023-11-14T22:13:20.000Z'') ready) = None \<and>
   history (handleGenerateArticle (Inl (Error (ascii ''quota exceeded'')))
       (ascii ''1700000000000'') (ascii ''2023-11-14T22:13:20.000Z'') ready) = history ready"
proof -
  have go: "trim (topic ready) \<noteq> []"
    by (simp add: ready_def trim_AI)
  show ?thesis
    using go generation_failure [OF go, of "Error (ascii ''quota exceeded'')"
        "ascii ''1700000000000''" "ascii ''2023-11-14T22:13:20.000Z''"]
    by (simp add: ascii_def)
qed

section \<open>History handlers\<close>

text \<open>
  C6. \<^verbatim>\<open>handleClearHistory\<close> empties the history when the user confirms; when the user
  does not, the history, and the whole state, is as before.
\<close>

theorem clear_history:
  "history (handleClearHistory True s) = [] \<and>
   history (handleClearHistory False s) = history s \<and>
   handleClearHistory False s = s"
  by (simp add: handleClearHistory_def Let_def)

text \<open>
  C9. After a confirmed clear the article on display is as before when the view is the
  history page, and \<^verbatim>\<open>null\<close> on every other view.
\<close>

theorem clear_history_display:
  "generatedArticle (handleClearHistory True s) =
     (if view s = View_history then generatedArticle s else None)"
  by (simp add: handleClearHistory_def Let_def)

text \<open>
  C7. \<^verbatim>\<open>handleSelectFromHistory\<close> puts the article it is given on display and
  switches to the main view; this holds for every article, those of the history among
  them.
\<close>

theorem select_from_history:
  "generatedArticle (handleSelectFromHistory article s) = Some article \<and>
   view (handleSelectFromHistory article s) = View_main"
  by (simp add: handleSelectFromHistory_def)

text \<open>
  C5, as the claim states it, fails when two entries of the history carry the same id:
  deleting by the id of the first removes the second as well, where the original list
  minus that one entry would keep it.
\<close>

theorem delete_by_id_counterexample:
  "sample_article \<in> set (history (initial\<lparr>history := [sample_article, sample_twin]\<rparr>)) \<and>
   history (handleDeleteFromHistory (id' sample_article)
       (initial\<lparr>history := [sample_article, sample_twin]\<rparr>)) = [] \<and>
   remove1 sample_article (history (initial\<lparr>history := [sample_article, sample_twin]\<rparr>)) =
     [sample_twin]"
  by (simp add: handleDeleteFromHistory_def sample_twin_def sample_article_def)

text \<open>
  C5, amended. \<^verbatim>\<open>handleDeleteFromHistory(id)\<close> changes nothing but the history,
  which becomes the entries whose id is not the given one: every entry with that id is
  removed, and every other entry is kept, as often as it occurred and in order. When the
  ids of the history are pairwise different, deleting by the id of an entry gives the
  original list minus exactly that entry, one entry shorter.
\<close>

theorem delete_by_id:
  "handleDeleteFromHistory i s =
     s\<lparr>history := filter (\<lambda>item. id' item \<noteq> i) (history s)\<rparr> \<and>
   count_list (history (handleDeleteFromHistory i s)) x =
     (if id' x = i then 0 else count_list (history s) x) \<and>
   set (history (handleDeleteFromHistory i s)) = {item \<in> set (history s). id' item \<noteq> i} \<and>
   subseq (history (handleDeleteFromHistory i s)) (history s) \<and>
   (distinct (map id' (history s)) \<and> a \<in> set (history s) \<longrightarrow>
      handleDeleteFromHistory (id' a) s = s\<lparr>history := remove1 a (history s)\<rparr> \<and>
      Suc (length (history (handleDeleteFromHistory (id' a) s))) = length (history s))"
proof -
  have whole: "handleDeleteFromHistory i s =
      s\<lparr>history := filter (\<lambda>item. id' item \<noteq> i) (history s)\<rparr>"
    by (simp add: handleDeleteFromHistory_def)
  have "count_list (history (handleDeleteFromHistory i s)) x =
      (if id' x = i then 0 else count_list (history s) x)"
    by (simp add: handleDeleteFromHistory_def count_list_filter_key)
  moreover have "set (history (handleDeleteFromHistory i s)) =
      {item \<in> set (history s). id' item \<noteq> i}"
    by (simp add: handleDeleteFromHistory_def)
  moreover have "subseq (history (handleDeleteFromHistory i s)) (history s)"
    by (simp add: handleDeleteFromHistory_def)
  moreover have "handleDeleteFromHistory (id' a) s = s\<lparr>history := remove1 a (history s)\<rparr>"
      and "Suc (length (history (handleDeleteFromHistory (id' a) s))) = length (history s)"
    if "distinct (map id' (history s))" and "a \<in> set (history s)"
  proof -
    from that have eq: "filter (\<lambda>item. id' item \<noteq> id' a) (history s) = remove1 a (history s)"
      by (rule filter_unique_key)
    then show "handleDeleteFromHistory (id' a) s = s\<lparr>history := remove1 a (history s)\<rparr>"
      by (simp add: handleDeleteFromHistory_def)
    from that(2) have "0 < length (history s)"
      by (cases "history s") auto
    with eq that(2) show "Suc (length (history (handleDeleteFromHistory (id' a) s))) =
        length (history s)"
      by (simp add: handleDeleteFromHistory_def length_remove1)
  qed
  ultimately show ?thesis using whole by blast
qed

text \<open>
  An instance of the amended C5: two copies of one article and an older one with an id of
  its own. Deleting by the older id keeps both copies; the ids of the last two entries
  are different, and deleting by the id of the first of these leaves the other.
\<close>

theorem delete_by_id_witness:
  "history (handleDeleteFromHistory (id' sample_older)
       (initial\<lparr>history := [sample_article, sample_article, sample_older]\<rparr>)) =
     [sample_article, sample_article] \<and>
   distinct (map id' (history (initial\<lparr>history := [sample_article, sample_older]\<rparr>))) \<and>
   sample_article \<in> set (history (initial\<lparr>history := [sample_article, sample_older]\<rparr>)) \<and>
   history (handleDeleteFromHistory (id' sample_article)
       (initial\<lparr>history := [sample_article, sample_older]\<rparr>)) = [sample_older]"
proof -
  have differ: "id' sample_article \<noteq> id' sample_older"
    by (simp add: sample_article_def sample_older_def ascii_def)
  have ids: "distinct (map id' (history (initial\<lparr>history := [sample_article, sample_older]\<rparr>)))"
    using differ by simp
  have mem: "sample_article \<in> set (history (initial\<lparr>history := [sample_article, sample_older]\<rparr>))"
    by simp
  show ?thesis
    using differ ids mem
      delete_by_id [of "id' sample_article"
        "initial\<lparr>history := [sample_article, sample_older]\<rparr>" sample_article sample_article]
      delete_by_id [of "id' sample_older"
        "initial\<lparr>history := [sample_article, sample_article, sample_older]\<rparr>"
        sample_article sample_article]
    by simp
qed

section \<open>Startup load\<close>

text \<open>
  C8. The startup load, on every path. When the stored text is not empty and
  \<^verbatim>\<open>JSON.parse\<close> returns an array, that array becomes the history. When nothing is
  stored (\<^verbatim>\<open>null\<close> or the empty text) the state is as before. When
  \<^verbatim>\<open>localStorage.getItem\<close> throws, or \<^verbatim>\<open>JSON.parse\<close> throws on a stored text that
  is not empty, the thrown value is logged by \<^verbatim>\<open>console.error\<close> and the history is
  set to the empty list. On every path the other cells of the state are as before and
  the load ends with a state: no throw leaves the effect.
\<close>

theorem load_failure_caught:
  "loadHistory (Inl e) parsed s =
     s\<lparr>trace := trace s @
          [ConsoleError (ascii ''Failed to load history from localStorage:'') e],
       history := []\<rparr> \<and>
   (storedHistory \<noteq> [] \<longrightarrow>
      loadHistory (Inr (Some storedHistory)) (Inl e) s =
        s\<lparr>trace := trace s @
             [ConsoleError (ascii ''Failed to load history from localStorage:'') e],
          history := []\<rparr> \<and>
      loadHistory (Inr (Some storedHistory)) (Inr v) s = s\<lparr>history := v\<rparr>) \<and>
   loadHistory (Inr None) parsed s = s \<and>
   loadHistory (Inr (Some [])) parsed s = s \<and>
   (loadHistory_try getItem parsed s = Inl e \<longleftrightarrow>
      getItem = Inl e \<or>
      (\<exists>t. getItem = Inr (Some t) \<and> t \<noteq> [] \<and> parsed = Inl e))"
proof -
  have "loadHistory_try getItem parsed s = Inl e \<longleftrightarrow>
      getItem = Inl e \<or> (\<exists>t. getItem = Inr (Some t) \<and> t \<noteq> [] \<and> parsed = Inl e)"
    by (auto simp: loadHistory_try_def split: sum.splits option.splits if_splits)
  then show ?thesis
    by (simp add: loadHistory_def loadHistory_try_def)
qed

text \<open>
  An instance of C8: a stored array of two articles is loaded as it is; a stored text
  that is cut short makes \<^verbatim>\<open>JSON.parse\<close> throw a syntax error, and then the history is
  empty and the log holds the one entry.
\<close>

theorem load_failure_caught_witness:
  "stored_array 2 \<noteq> [] \<and>
   history (loadHistory (Inr (Some (stored_array 2))) (Inr [sample_article, sample_article])
       initial) = [sample_article, sample_article] \<and>
   trace (loadHistory (Inr (Some (stored_array 2))) (Inr [sample_article, sample_article])
       initial) = [] \<and>
   ascii ''[{'' \<noteq> [] \<and>
   history (loadHistory (Inr (Some (ascii ''[{'')))
       (Inl (Error (ascii ''Unexpected end of JSON input''))) (initial :: unit App)) = [] \<and>
   trace (loadHistory (Inr (Some (ascii ''[{'')))
       (Inl (Error (ascii ''Unexpected end of JSON input''))) (initial :: unit App)) =
     [ConsoleError (ascii ''Failed to load history from localStorage:'')
        (Error (ascii ''Unexpected end of JSON input''))]"
proof -
  have truthy: "ascii ''[{'' \<noteq> []"
    by (simp add: ascii_def)
  show ?thesis
    using truthy stored_array_truthy [of 2]
      load_failure_caught [of "Error (ascii ''Unexpected end of JSON input'')" "Inr []"
        "initial :: unit App" "ascii ''[{''" "[]" "Inl NotAnError"]
      load_failure_caught [of NotAnError "Inr []" "initial :: unit App" "stored_array 2"
        "[sample_article, sample_article]" "Inl NotAnError"]
    by (simp add: initial_def)
qed

text \<open>
  C10. When the stored text is not empty and \<^verbatim>\<open>JSON.parse\<close> returns an array, the
  load installs that array as the history, whatever its length and its entries, and
  changes nothing else. In particular an array of 51 entries gives a history of 51.
\<close>

theorem load_verbatim:
  assumes "storedHistory \<noteq> []"
  shows "loadHistory (Inr (Some storedHistory)) (Inr v) s = s\<lparr>history := v\<rparr> \<and>
         length (history (loadHistory (Inr (Some storedHistory)) (Inr (replicate 51 a)) s)) = 51"
  using assms by (simp add: loadHistory_def loadHistory_try_def)

text \<open>
  An instance of C10: the stored text is the JSON array of 51 copies of one article; the
  history after the load has these 51 entries.
\<close>

theorem load_verbatim_witness:
  "stored_array 51 \<noteq> [] \<and>
   history (loadHistory (Inr (Some (stored_array 51))) (Inr (replicate 51 sample_article))
       initial) = replicate 51 sample_article \<and>
   50 < length (history (loadHistory (Inr (Some (stored_array 51)))
       (Inr (replicate 51 sample_article)) initial))"
  using stored_array_truthy [of 51]
    load_verbatim [OF stored_array_truthy, of 51 "replicate 51 sample_article" initial]
  by simp

section \<open>The cap on the history\<close>

text \<open>
  C1, as the claim states it, fails for the startup load: a stored array of 60 entries
  becomes a history of 60 entries, more than 50.
\<close>

theorem history_cap_counterexample:
  "\<not> length (history (loadHistory (Inr (Some (stored_array 60)))
       (Inr (replicate 60 sample_article)) initial)) \<le> 50"
  by (simp add: loadHistory_def loadHistory_try_def stored_array_truthy)

text \<open>
  C1, amended. What each operation does to the history. A successful generation makes it
  the new article followed by the first 49 old entries, so at most 50 whatever it was,
  and on a history of exactly 50 the last, oldest entry is dropped; a failed generation
  and one blocked for a blank topic leave it as it was. A deletion keeps the entries
  with another id and a clear gives the empty list or the old one, so neither makes it
  longer. Hence a history of at most 50 entries stays so under every outcome of a
  generation, under a deletion and under a clear. The startup load installs the array it
  reads as it is: the history after it has at most 50 entries exactly when that array
  has at most 50.
\<close>

theorem history_cap:
  "(trim (topic s) \<noteq> [] \<longrightarrow>
      history (handleGenerateArticle (Inr d) dateNow dateISO s) =
        \<lparr>articleData = d, id' = dateNow, createdAt = dateISO\<rparr> # take 49 (history s) \<and>
      history (handleGenerateArticle (Inl e) dateNow dateISO s) = history s \<and>
      length (history (handleGenerateArticle (Inr d) dateNow dateISO s)) \<le> 50) \<and>
   (trim (topic s) = [] \<longrightarrow>
      history (handleGenerateArticle response dateNow dateISO s) = history s) \<and>
   (trim (topic s) \<noteq> [] \<and> length (history s) = 50 \<longrightarrow>
      history (handleGenerateArticle (Inr d) dateNow dateISO s) =
        \<lparr>articleData = d, id' = dateNow, createdAt = dateISO\<rparr> # butlast (history s)) \<and>
   history (handleDeleteFromHistory i s) = filter (\<lambda>item. id' item \<noteq> i) (history s) \<and>
   length (history (handleDeleteFromHistory i s)) \<le> length (history s) \<and>
   history (handleClearHistory confirmed s) = (if confirmed then [] else history s) \<and>
   (length (history s) \<le> 50 \<longrightarrow>
      length (history (handleGenerateArticle response dateNow dateISO s)) \<le> 50 \<and>
      length (history (handleDeleteFromHistory i s)) \<le> 50 \<and>
      length (history (handleClearHistory confirmed s)) \<le> 50) \<and>
   (storedHistory \<noteq> [] \<longrightarrow>
      history (loadHistory (Inr (Some storedHistory)) (Inr v) s) = v \<and>
      (length (history (loadHistory (Inr (Some storedHistory)) (Inr v) s)) \<le> 50 \<longleftrightarrow>
         length v \<le> 50)) \<and>
   (length (history s) \<le> 50 \<and> (case parsed of Inl e \<Rightarrow> True | Inr v \<Rightarrow> length v \<le> 50) \<longrightarrow>
      length (history (loadHistory getItem parsed s)) \<le> 50)"
proof -
  have gen: "history (handleGenerateArticle (Inr d) dateNow dateISO s) =
      \<lparr>articleData = d, id' = dateNow, createdAt = dateISO\<rparr> # take 49 (history s)"
    if "trim (topic s) \<noteq> []"
    using that by (simp add: handleGenerateArticle_def Let_def)
  have fail: "history (handleGenerateArticle (Inl e) dateNow dateISO s) = history s"
    by (simp add: handleGenerateArticle_def Let_def)
  have blank: "history (handleGenerateArticle response dateNow dateISO s) = history s"
    if "trim (topic s) = []"
    using that by (simp add: handleGenerateArticle_def)
  have a: "trim (topic s) \<noteq> [] \<longrightarrow>
      history (handleGenerateArticle (Inr d) dateNow dateISO s) =
        \<lparr>articleData = d, id' = dateNow, createdAt = dateISO\<rparr> # take 49 (history s) \<and>
      history (handleGenerateArticle (Inl e) dateNow dateISO s) = history s \<and>
      length (history (handleGenerateArticle (Inr d) dateNow dateISO s)) \<le> 50"
    by (simp add: gen fail)
  have b: "trim (topic s) \<noteq> [] \<and> length (history s) = 50 \<longrightarrow>
      history (handleGenerateArticle (Inr d) dateNow dateISO s) =
        \<lparr>articleData = d, id' = dateNow, createdAt = dateISO\<rparr> # butlast (history s)"
    by (simp add: gen butlast_conv_take)
  have del: "history (handleDeleteFromHistory i s) =
      filter (\<lambda>item. id' item \<noteq> i) (history s)"
    by (simp add: handleDeleteFromHistory_def)
  have del_le: "length (history (handleDeleteFromHistory i s)) \<le> length (history s)"
    by (simp add: del)
  have clr: "history (handleClearHistory confirmed s) = (if confirmed then [] else history s)"
    by (simp add: handleClearHistory_def Let_def)
  have c1: "length (history (handleGenerateArticle response dateNow dateISO s)) \<le> 50"
    if "length (history s) \<le> 50"
    using that by (simp add: handleGenerateArticle_def Let_def split: sum.split)
  have c2: "length (history (handleDeleteFromHistory i s)) \<le> 50"
    if "length (history s) \<le> 50"
    using that del_le by simp
  have c3: "length (history (handleClearHistory confirmed s)) \<le> 50"
    if "length (history s) \<le> 50"
    using that by (simp add: clr)
  have ld: "history (loadHistory (Inr (Some storedHistory)) (Inr v) s) = v"
    if "storedHistory \<noteq> []"
    using that by (simp add: loadHistory_def loadHistory_try_def)
  have l: "storedHistory \<noteq> [] \<longrightarrow>
      history (loadHistory (Inr (Some storedHistory)) (Inr v) s) = v \<and>
      (length (history (loadHistory (Inr (Some storedHistory)) (Inr v) s)) \<le> 50 \<longleftrightarrow>
         length v \<le> 50)"
    by (simp add: ld)
  have d: "length (history (loadHistory getItem parsed s)) \<le> 50"
    if "length (history s) \<le> 50" and "case parsed of Inl e \<Rightarrow> True | Inr v \<Rightarrow> length v \<le> 50"
    using that
    by (simp add: loadHistory_def loadHistory_try_def split: sum.splits option.splits)
  from a b blank del del_le clr c1 c2 c3 l d show ?thesis by blast
qed

text \<open>
  An instance of the amended C1: on the history of fifty entries a successful generation
  puts the new article in front of the first 49 and drops the older article, the last
  one; a deletion and a clear keep the bound; the load of a stored array of fifty gives
  these fifty entries.
\<close>

theorem history_cap_witness:
  "trim (topic full) \<noteq> [] \<and> length (history full) = 50 \<and> stored_array 50 \<noteq> [] \<and>
   history (handleGenerateArticle (Inr ()) (ascii ''1700000000000'')
       (ascii ''2023-11-14T22:13:20.000Z'') full) =
     sample_article # replicate 49 sample_twin \<and>
   length (history (handleDeleteFromHistory (id' sample_older) full)) \<le> 50 \<and>
   length (history (handleClearHistory True full)) \<le> 50 \<and>
   history (loadHistory (Inr (Some (stored_array 50)))
       (Inr (replicate 50 sample_article)) full) = replicate 50 sample_article \<and>
   length (history (loadHistory (Inr (Some (stored_array 50)))
       (Inr (replicate 50 sample_article)) full)) \<le> 50"
proof -
  have go: "trim (topic full) \<noteq> []"
    by (simp add: full_def ready_def trim_AI)
  have len: "length (history full) = 50"
    by (simp add: full_def)
  have old: "butlast (history full) = replicate 49 sample_twin"
    by (simp add: full_def)
  have front: "take 49 (history full) = replicate 49 sample_twin"
    by (simp add: full_def)
  have "length (filter (\<lambda>item. id' item \<noteq> id' sample_older) (history full)) \<le>
      length (history full)"
    by (rule length_filter_le)
  with len have kept: "length (filter (\<lambda>item. id' item \<noteq> id' sample_older) (history full)) \<le> 50"
    by simp
  show ?thesis
    using go len old front kept stored_array_truthy [of 50]
      history_cap [of full "()" "ascii ''1700000000000''" "ascii ''2023-11-14T22:13:20.000Z''"
        NotAnError "Inr ()" "id' sample_older" True "stored_array 50"
        "replicate 50 sample_article" "Inr (replicate 50 sample_article)"
        "Inr (Some (stored_array 50))"]
    by (simp add: sample_article_def)
qed

end
